theory Spec2Isabelle
  imports Main "HOL-Library.Char_ord" "HOL-Library.List_Lexorder" "HOL-Library.Product_Lexorder"
    "HOL-Library.Multiset"
begin

section \<open>Qt values\<close>

text \<open>
  A \<^verbatim>\<open>QString\<close> is modelled as a \<^typ>\<open>string\<close>, one \<^typ>\<open>char\<close> per code unit
  (the Latin-1 range). \<^verbatim>\<open>QString::operator<\<close> compares code units lexicographically,
  which is the order of \<^typ>\<open>char list\<close> used here.

  A \<^verbatim>\<open>QDateTime\<close> is the number of milliseconds since the epoch, or \<open>None\<close> for a
  null (invalid) date.
\<close>

type_synonym QDateTime = "int option"

text \<open>Division of C++ integers truncates towards zero. \<^verbatim>\<open>QDateTime::secsTo\<close> is the
  difference in milliseconds divided by 1000 in that way.\<close>

definition truncDiv :: "int \<Rightarrow> int \<Rightarrow> int" where
  "truncDiv a b = (if a < 0 then - ((- a) div b) else a div b)"

definition secsTo :: "int \<Rightarrow> int \<Rightarrow> int" where
  "secsTo t other = truncDiv (other - t) 1000"

text \<open>\<^verbatim>\<open>QString::contains(sub)\<close>.\<close>

fun contains :: "string \<Rightarrow> string \<Rightarrow> bool" where
  "contains [] sub = (sub = [])"
| "contains (c # cs) sub = (take (length sub) (c # cs) = sub \<or> contains cs sub)"

text \<open>\<^verbatim>\<open>QChar::isSpace\<close> on the Latin-1 range: tab to carriage return, the space, NEL
  and the no-break space.\<close>

definition isSpace :: "char \<Rightarrow> bool" where
  "isSpace c = (let n = (of_char c :: nat) in
     n = 32 \<or> (9 \<le> n \<and> n \<le> 13) \<or> n = 133 \<or> n = 160)"

text \<open>\<^verbatim>\<open>QString::trimmed\<close>: white space removed from both ends.\<close>

definition trimmed :: "string \<Rightarrow> string" where
  "trimmed s = rev (dropWhile isSpace (rev (dropWhile isSpace s)))"

text \<open>\<^verbatim>\<open>QString::toLower\<close> on the ASCII letters, the only letters of a \<^verbatim>\<open>QUrl\<close>
  scheme.\<close>

definition toLowerChar :: "char \<Rightarrow> char" where
  "toLowerChar c = (let n = (of_char c :: nat) in
     if 65 \<le> n \<and> n \<le> 90 then char_of (n + 32) else c)"

definition toLower :: "string \<Rightarrow> string" where
  "toLower s = map toLowerChar s"

text \<open>\<^verbatim>\<open>qBound(min, val, max)\<close> is \<^verbatim>\<open>qMax(min, qMin(max, val))\<close>.\<close>

definition qBound :: "int \<Rightarrow> int \<Rightarrow> int \<Rightarrow> int" where
  "qBound lo val hi = max lo (min hi val)"

section \<open>Constants (constants.h)\<close>

definition DEFAULT_TIMEOUT :: int where "DEFAULT_TIMEOUT = 10"
definition MIN_TIMEOUT :: int where "MIN_TIMEOUT = 5"
definition MAX_TIMEOUT :: int where "MAX_TIMEOUT = 60"

definition FIREFOX_CONFIG :: string where "FIREFOX_CONFIG = ''profiles.ini''"
definition CHROME_CONFIG :: string where "CHROME_CONFIG = ''Local State''"

definition FIREFOX_EXECUTABLE :: string where "FIREFOX_EXECUTABLE = ''firefox''"
definition CHROME_EXECUTABLE :: string where "CHROME_EXECUTABLE = ''google-chrome''"
definition CHROMIUM_EXECUTABLE :: string where "CHROMIUM_EXECUTABLE = ''chromium''"

definition CHROME_EXECUTABLE_VARIANTS :: "string list" where
  "CHROME_EXECUTABLE_VARIANTS =
     [''google-chrome'', ''google-chrome-stable'', ''google-chrome-beta'',
      ''google-chrome-unstable'']"

definition CONFIG_GROUP_GENERAL :: string where "CONFIG_GROUP_GENERAL = ''General''"
definition CONFIG_GROUP_LAST_USED :: string where "CONFIG_GROUP_LAST_USED = ''LastUsed''"
definition CONFIG_KEY_DEFAULT_TIMEOUT :: string where
  "CONFIG_KEY_DEFAULT_TIMEOUT = ''DefaultTimeout''"
definition CONFIG_KEY_REMEMBER_LAST_USED :: string where
  "CONFIG_KEY_REMEMBER_LAST_USED = ''RememberLastUsed''"

datatype BrowserType = Firefox | Chrome | Chromium | Unknown

section \<open>ConfigManager (configmanager.cpp)\<close>

text \<open>
  The \<^verbatim>\<open>KConfig\<close> object is a store of entries addressed by group and key.
  \<^verbatim>\<open>readEntry(key, default)\<close> gives the default when the entry is missing (or holds a
  value of another type); \<^verbatim>\<open>writeEntry\<close> replaces the entry. \<^verbatim>\<open>sync()\<close> and the
  \<^verbatim>\<open>configChanged\<close> signal leave the entries as they are.
\<close>

datatype cfg_value = IntV int | BoolV bool | StrV string

type_synonym KConfig = "string \<times> string \<rightharpoonup> cfg_value"

definition readEntryInt :: "KConfig \<Rightarrow> string \<Rightarrow> string \<Rightarrow> int \<Rightarrow> int" where
  "readEntryInt cfg g k d = (case cfg (g, k) of Some (IntV i) \<Rightarrow> i | _ \<Rightarrow> d)"

definition readEntryBool :: "KConfig \<Rightarrow> string \<Rightarrow> string \<Rightarrow> bool \<Rightarrow> bool" where
  "readEntryBool cfg g k d = (case cfg (g, k) of Some (BoolV b) \<Rightarrow> b | _ \<Rightarrow> d)"

definition readEntryStr :: "KConfig \<Rightarrow> string \<Rightarrow> string \<Rightarrow> string \<Rightarrow> string" where
  "readEntryStr cfg g k d = (case cfg (g, k) of Some (StrV s) \<Rightarrow> s | _ \<Rightarrow> d)"

definition writeEntry :: "KConfig \<Rightarrow> string \<Rightarrow> string \<Rightarrow> cfg_value \<Rightarrow> KConfig" where
  "writeEntry cfg g k v = cfg((g, k) \<mapsto> v)"

definition defaultTimeout :: "KConfig \<Rightarrow> int" where
  "defaultTimeout cfg =
     readEntryInt cfg CONFIG_GROUP_GENERAL CONFIG_KEY_DEFAULT_TIMEOUT DEFAULT_TIMEOUT"

definition setDefaultTimeout :: "KConfig \<Rightarrow> int \<Rightarrow> KConfig" where
  "setDefaultTimeout cfg seconds =
     (let seconds' = qBound MIN_TIMEOUT seconds MAX_TIMEOUT
      in writeEntry cfg CONFIG_GROUP_GENERAL CONFIG_KEY_DEFAULT_TIMEOUT (IntV seconds'))"

definition rememberLastUsed :: "KConfig \<Rightarrow> bool" where
  "rememberLastUsed cfg =
     readEntryBool cfg CONFIG_GROUP_GENERAL CONFIG_KEY_REMEMBER_LAST_USED True"

definition setRememberLastUsed :: "KConfig \<Rightarrow> bool \<Rightarrow> KConfig" where
  "setRememberLastUsed cfg remember =
     writeEntry cfg CONFIG_GROUP_GENERAL CONFIG_KEY_REMEMBER_LAST_USED (BoolV remember)"

definition getLastUsed :: "KConfig \<Rightarrow> string \<times> string" where
  "getLastUsed cfg =
     (readEntryStr cfg CONFIG_GROUP_LAST_USED ''Browser'' [],
      readEntryStr cfg CONFIG_GROUP_LAST_USED ''Profile'' [])"

definition setLastUsed :: "KConfig \<Rightarrow> string \<Rightarrow> string \<Rightarrow> KConfig" where
  "setLastUsed cfg browser profile =
     (if \<not> rememberLastUsed cfg then cfg
      else writeEntry (writeEntry cfg CONFIG_GROUP_LAST_USED ''Browser'' (StrV browser))
             CONFIG_GROUP_LAST_USED ''Profile'' (StrV profile))"

section \<open>BrowserDetector: data (browserdetector.h)\<close>

record ProfileInfo =
  name :: string
  path :: string
  displayName :: string
  lastUsed :: QDateTime
  isDefault :: bool

text \<open>The constructor \<^verbatim>\<open>ProfileInfo(n, p)\<close>.\<close>

definition mkProfileInfo :: "string \<Rightarrow> string \<Rightarrow> ProfileInfo" where
  "mkProfileInfo n p =
     \<lparr>name = n, path = p, displayName = n, lastUsed = None, isDefault = False\<rparr>"

record BrowserInfo =
  bname :: string
  executable :: string
  iconPath :: string
  profiles :: "string \<rightharpoonup> ProfileInfo"
  btype :: BrowserType

text \<open>The constructor \<^verbatim>\<open>BrowserInfo(n, e, t)\<close>.\<close>

definition mkBrowserInfo :: "string \<Rightarrow> string \<Rightarrow> BrowserType \<Rightarrow> BrowserInfo" where
  "mkBrowserInfo n e t =
     \<lparr>bname = n, executable = e, iconPath = [], profiles = Map.empty, btype = t\<rparr>"

text \<open>
  The detector's members. The signals \<^verbatim>\<open>browserDetected\<close> and \<^verbatim>\<open>profileDetected\<close>
  carry nothing back into the detector and are not recorded; \<^verbatim>\<open>launchError\<close> is, in
  the result of a launch.
\<close>

record BrowserDetector =
  m_cachedBrowsers :: "string \<rightharpoonup> BrowserInfo"
  m_lastDetection :: QDateTime
  m_execOverrides :: "string \<rightharpoonup> string"
  m_enabledOverrides :: "string \<rightharpoonup> bool"

definition newBrowserDetector :: BrowserDetector where
  "newBrowserDetector =
     \<lparr>m_cachedBrowsers = Map.empty, m_lastDetection = None,
      m_execOverrides = Map.empty, m_enabledOverrides = Map.empty\<rparr>"

definition setExecutableOverrides ::
  "BrowserDetector \<Rightarrow> (string \<rightharpoonup> string) \<Rightarrow> BrowserDetector" where
  "setExecutableOverrides d overrides = d\<lparr>m_execOverrides := overrides\<rparr>"

definition setEnabledOverrides ::
  "BrowserDetector \<Rightarrow> (string \<rightharpoonup> bool) \<Rightarrow> BrowserDetector" where
  "setEnabledOverrides d overrides = d\<lparr>m_enabledOverrides := overrides\<rparr>"

text \<open>\<^verbatim>\<open>QMap::value(key)\<close> on a map of strings: the empty string when the key is
  missing.\<close>

definition qmapValue :: "(string \<rightharpoonup> string) \<Rightarrow> string \<Rightarrow> string" where
  "qmapValue m k = (case m k of Some v \<Rightarrow> v | None \<Rightarrow> [])"

text \<open>\<^verbatim>\<open>m_enabledOverrides.contains(id) && !m_enabledOverrides.value(id)\<close>.\<close>

definition explicitlyDisabled :: "BrowserDetector \<Rightarrow> string \<Rightarrow> bool" where
  "explicitlyDisabled d k = (case m_enabledOverrides d k of Some b \<Rightarrow> \<not> b | None \<Rightarrow> False)"

section \<open>The platform the detector runs on\<close>

text \<open>
  What the code asks of Qt and of the disk is a parameter of the model.
  A Local State file, once opened and decoded: the open can fail, the document can be
  something else than a JSON object, and otherwise the model keeps the entries of
  \<^verbatim>\<open>root["profile"]["info_cache"]\<close> in iteration order, each a directory name with
  \<^verbatim>\<open>info["name"].toString()\<close> (empty when there is none).
\<close>

datatype local_state_file = CannotOpen | NotJsonObject | JsonObject "(string \<times> string) list"

text \<open>A section of profiles.ini as \<^verbatim>\<open>QSettings\<close> gives it: the group with its
  \<^verbatim>\<open>Name\<close>, \<^verbatim>\<open>Path\<close> and \<^verbatim>\<open>Default\<close> values.\<close>

record ini_section =
  iniGroup :: string
  iniName :: string
  iniPath :: string
  iniDefault :: bool

text \<open>A times.json file, once opened and decoded. For a JSON object the model keeps
  the \<^verbatim>\<open>qint64\<close> that the code computes from it,
  \<^verbatim>\<open>static_cast<qint64>(times["firstUse"].toDouble() / 1000)\<close>: the division is one of
  doubles and the cast is the platform's, so both stay outside the model.\<close>

datatype times_file = TimesCannotOpen | TimesNotJsonObject | TimesObject int

record env =
  findInPath :: "string \<Rightarrow> string"
  fileExists :: "string \<Rightarrow> bool"
  isExecutable :: "string \<Rightarrow> bool"
  dirExists :: "string \<Rightarrow> bool"
  homePath :: string
  lastModified :: "string \<Rightarrow> QDateTime"
  readLocalState :: "string \<Rightarrow> local_state_file"
  readIni :: "string \<Rightarrow> ini_section list"
  readTimes :: "string \<Rightarrow> times_file"
  fromSecsSinceEpoch :: "int \<Rightarrow> QDateTime"
  qurl :: "string \<Rightarrow> string option"
  startDetached :: "string \<Rightarrow> string list \<Rightarrow> bool \<times> int list"

text \<open>
  \<^item> \<open>findInPath\<close> is \<^verbatim>\<open>QStandardPaths::findExecutable\<close> (empty when nothing is found);
  \<^item> \<open>fileExists\<close>, \<open>isExecutable\<close>, \<open>dirExists\<close>, \<open>lastModified\<close> are \<^verbatim>\<open>QFile::exists\<close>,
    \<^verbatim>\<open>QFileInfo::isExecutable\<close>, \<^verbatim>\<open>QDir::exists\<close> and \<^verbatim>\<open>QFileInfo::lastModified\<close>;
  \<^item> \<open>fromSecsSinceEpoch\<close> is \<^verbatim>\<open>QDateTime::fromSecsSinceEpoch\<close>;
  \<^item> \<open>qurl u\<close> is \<open>None\<close> when \<^verbatim>\<open>QUrl(u).isValid()\<close> is false and \<open>Some\<close> of
    \<^verbatim>\<open>QUrl(u).scheme()\<close> otherwise;
  \<^item> \<open>startDetached program arguments\<close> is \<^verbatim>\<open>QProcess::startDetached\<close>: the boolean it
    returns, with the codes of the \<^verbatim>\<open>errorOccurred\<close> signals the process raised.
\<close>

section \<open>BrowserDetector: discovery (browserdetector.cpp)\<close>

definition commonPaths :: "env \<Rightarrow> string \<Rightarrow> string list" where
  "commonPaths e nm =
     [''/usr/bin/'' @ nm, ''/usr/local/bin/'' @ nm, ''/opt/'' @ nm @ ''/'' @ nm,
      homePath e @ ''/.local/bin/'' @ nm]"

definition findExecutable :: "env \<Rightarrow> string \<Rightarrow> string" where
  "findExecutable e nm =
     (let p = findInPath e nm in
      if p \<noteq> [] then p
      else (case filter (\<lambda>p. fileExists e p \<and> isExecutable e p) (commonPaths e nm) of
              p # _ \<Rightarrow> p
            | [] \<Rightarrow> []))"

fun findExecutableFromList :: "env \<Rightarrow> string list \<Rightarrow> string" where
  "findExecutableFromList e [] = []"
| "findExecutableFromList e (nm # names) =
     (let exec = findExecutable e nm in
      if exec \<noteq> [] then exec else findExecutableFromList e names)"

definition getFirefoxProfilePath :: "env \<Rightarrow> string" where
  "getFirefoxProfilePath e = homePath e @ ''/.mozilla/firefox''"

definition getChromeProfilePath :: "env \<Rightarrow> string \<Rightarrow> string" where
  "getChromeProfilePath e browserName = homePath e @ ''/.config/'' @ browserName"

definition getProfileLastUsed :: "env \<Rightarrow> string \<Rightarrow> string \<Rightarrow> QDateTime" where
  "getProfileLastUsed e browserPath profilePath =
     (let fallback = lastModified e profilePath in
      if browserPath = ''firefox'' then
        (let timesPath = profilePath @ ''/times.json'' in
         if fileExists e timesPath then
           (case readTimes e timesPath of
              TimesObject firstUse \<Rightarrow>
                (if firstUse > 0 then fromSecsSinceEpoch e firstUse else fallback)
            | _ \<Rightarrow> fallback)
         else fallback)
      else if browserPath = ''chrome'' \<or> browserPath = ''chromium'' then
        (let prefsPath = profilePath @ ''/Preferences'' in
         if fileExists e prefsPath then lastModified e prefsPath else fallback)
      else fallback)"

text \<open>\<^verbatim>\<open>QString::startsWith\<close>.\<close>

definition startsWith :: "string \<Rightarrow> string \<Rightarrow> bool" where
  "startsWith s p = (take (length p) s = p)"

definition parseFirefoxIniStep ::
  "(string \<rightharpoonup> ProfileInfo) \<Rightarrow> ini_section \<Rightarrow> (string \<rightharpoonup> ProfileInfo)" where
  "parseFirefoxIniStep profs sec =
     (if \<not> startsWith (iniGroup sec) ''Profile'' then profs
      else if iniName sec \<noteq> [] \<and> iniPath sec \<noteq> [] then
        profs(iniName sec \<mapsto> (mkProfileInfo (iniName sec) (iniPath sec))\<lparr>isDefault := iniDefault sec\<rparr>)
      else profs)"

definition parseFirefoxIni ::
  "env \<Rightarrow> string \<Rightarrow> (string \<rightharpoonup> ProfileInfo) \<Rightarrow> (string \<rightharpoonup> ProfileInfo)" where
  "parseFirefoxIni e iniFile profs = foldl parseFirefoxIniStep profs (readIni e iniFile)"

text \<open>The loop that stamps every profile of the map with its last use.\<close>

definition stampLastUsed ::
  "env \<Rightarrow> string \<Rightarrow> string \<Rightarrow> (string \<rightharpoonup> ProfileInfo) \<Rightarrow> (string \<rightharpoonup> ProfileInfo)" where
  "stampLastUsed e browserName root profs =
     (\<lambda>k. case profs k of
             None \<Rightarrow> None
           | Some profile \<Rightarrow>
               Some (profile\<lparr>lastUsed :=
                 getProfileLastUsed e browserName (root @ ''/'' @ path profile)\<rparr>))"

definition getFirefoxProfiles :: "env \<Rightarrow> (string \<rightharpoonup> ProfileInfo)" where
  "getFirefoxProfiles e =
     (let profilesPath = getFirefoxProfilePath e;
          iniFile = profilesPath @ ''/'' @ FIREFOX_CONFIG
      in if \<not> fileExists e iniFile then Map.empty
         else stampLastUsed e ''firefox'' profilesPath (parseFirefoxIni e iniFile Map.empty))"

definition infoCacheStep ::
  "env \<Rightarrow> string \<Rightarrow> (string \<rightharpoonup> ProfileInfo) \<Rightarrow> string \<times> string \<Rightarrow> (string \<rightharpoonup> ProfileInfo)" where
  "infoCacheStep e configDir profs entry =
     (let profileDir = fst entry;
          nm = (if snd entry = [] then profileDir else snd entry);
          profile = (mkProfileInfo nm profileDir)\<lparr>displayName := nm\<rparr>;
          profilePath = configDir @ ''/'' @ profileDir
      in if dirExists e profilePath then profs(profileDir \<mapsto> profile) else profs)"

definition parseChromiumLocalState ::
  "env \<Rightarrow> string \<Rightarrow> string \<Rightarrow> (string \<rightharpoonup> ProfileInfo) \<Rightarrow> (string \<rightharpoonup> ProfileInfo)" where
  "parseChromiumLocalState e localStatePath configDir profs =
     (case readLocalState e localStatePath of
        CannotOpen \<Rightarrow> profs
      | NotJsonObject \<Rightarrow> profs
      | JsonObject infoCache \<Rightarrow>
          (let defaultProfile = (mkProfileInfo ''Default'' ''Default'')\<lparr>displayName := ''Default''\<rparr>
           in foldl (infoCacheStep e configDir) (profs(''Default'' \<mapsto> defaultProfile)) infoCache))"

definition getChromeProfiles :: "env \<Rightarrow> string \<Rightarrow> (string \<rightharpoonup> ProfileInfo)" where
  "getChromeProfiles e browserName =
     (let configPath = getChromeProfilePath e browserName;
          localStatePath = configPath @ ''/'' @ CHROME_CONFIG
      in if \<not> fileExists e localStatePath then Map.empty
         else stampLastUsed e browserName configPath
                (parseChromiumLocalState e localStatePath configPath Map.empty))"

text \<open>
  The three blocks of \<^verbatim>\<open>detectBrowsers\<close>, one per browser, each adding at most one
  entry to the map under construction.
\<close>

definition detectFirefox ::
  "env \<Rightarrow> BrowserDetector \<Rightarrow> (string \<rightharpoonup> BrowserInfo) \<Rightarrow> (string \<rightharpoonup> BrowserInfo)" where
  "detectFirefox e d browsers =
     (if explicitlyDisabled d ''firefox'' then browsers
      else
        (let firefoxExec = qmapValue (m_execOverrides d) ''firefox'';
             firefoxExec = (if firefoxExec = [] then findExecutable e FIREFOX_EXECUTABLE
                            else firefoxExec)
         in if firefoxExec \<noteq> [] then
              browsers(''firefox'' \<mapsto> (mkBrowserInfo ''Firefox'' firefoxExec Firefox)
                \<lparr>iconPath := ''/usr/share/icons/hicolor/48x48/apps/firefox.png'',
                 profiles := getFirefoxProfiles e\<rparr>)
            else browsers))"

definition detectChrome ::
  "env \<Rightarrow> BrowserDetector \<Rightarrow> (string \<rightharpoonup> BrowserInfo) \<Rightarrow> (string \<rightharpoonup> BrowserInfo)" where
  "detectChrome e d browsers =
     (if explicitlyDisabled d ''chrome'' then browsers
      else
        (let chromeExec = qmapValue (m_execOverrides d) ''chrome'';
             chromeExec = (if chromeExec = []
                           then findExecutableFromList e CHROME_EXECUTABLE_VARIANTS
                           else chromeExec)
         in if chromeExec \<noteq> [] then
              browsers(''chrome'' \<mapsto> (mkBrowserInfo ''Google Chrome'' chromeExec Chrome)
                \<lparr>iconPath := ''/usr/share/icons/hicolor/48x48/apps/google-chrome.png'',
                 profiles := getChromeProfiles e ''google-chrome''\<rparr>)
            else browsers))"

definition detectChromium ::
  "env \<Rightarrow> BrowserDetector \<Rightarrow> (string \<rightharpoonup> BrowserInfo) \<Rightarrow> (string \<rightharpoonup> BrowserInfo)" where
  "detectChromium e d browsers =
     (if explicitlyDisabled d ''chromium'' then browsers
      else
        (let chromiumExec = qmapValue (m_execOverrides d) ''chromium'';
             chromiumExec = (if chromiumExec = [] then findExecutable e CHROMIUM_EXECUTABLE
                             else chromiumExec)
         in if chromiumExec \<noteq> [] then
              browsers(''chromium'' \<mapsto> (mkBrowserInfo ''Chromium'' chromiumExec Chromium)
                \<lparr>iconPath := ''/usr/share/icons/hicolor/48x48/apps/chromium.png'',
                 profiles := getChromeProfiles e ''chromium''\<rparr>)
            else browsers))"

text \<open>The test that opens \<^verbatim>\<open>detectBrowsers\<close>, at the time \<open>now\<close> of the call.\<close>

definition cacheIsFresh :: "BrowserDetector \<Rightarrow> int \<Rightarrow> bool" where
  "cacheIsFresh d now =
     (m_cachedBrowsers d \<noteq> Map.empty \<and>
      (case m_lastDetection d of Some t \<Rightarrow> secsTo t now < 5 | None \<Rightarrow> False))"

text \<open>
  \<^verbatim>\<open>detectBrowsers\<close> reads the clock twice: \<open>now\<close> when it tests the cache and \<open>stamp\<close>
  when it has scanned. It gives the map it returns and the detector afterwards.
\<close>

definition detectBrowsers ::
  "env \<Rightarrow> int \<Rightarrow> int \<Rightarrow> BrowserDetector \<Rightarrow> (string \<rightharpoonup> BrowserInfo) \<times> BrowserDetector" where
  "detectBrowsers e now stamp d =
     (if cacheIsFresh d now then (m_cachedBrowsers d, d)
      else
        (let browsers = detectChromium e d (detectChrome e d (detectFirefox e d Map.empty))
         in (browsers, d\<lparr>m_cachedBrowsers := browsers, m_lastDetection := Some stamp\<rparr>)))"

section \<open>BrowserDetector: validation and launch (browserdetector.cpp)\<close>

text \<open>The character class of the regular expression \<^verbatim>\<open>dangerousChars\<close>.\<close>

definition dangerousChars :: "char list" where
  "dangerousChars =
     [CHR '';'', CHR ''|'', CHR 0x60, CHR ''$'', CHR ''('', CHR '')'', CHR ''{'', CHR ''}'',
      CHR ''['', CHR '']'', CHR ''<'', CHR ''>'']"

definition hasDangerousChar :: "string \<Rightarrow> bool" where
  "hasDangerousChar url = list_ex (\<lambda>c. c \<in> set dangerousChars) url"

definition allowedSchemes :: "string list" where
  "allowedSchemes = [''http'', ''https'', ''file'', ''about'', ''chrome'', ''edge'']"

text \<open>\<^verbatim>\<open>isValidUrl\<close>, with \<^verbatim>\<open>QUrl\<close> as the parameter \<open>parse\<close>. The first test returns
  only when the URL is valid and its scheme is empty or allowed; every other case goes
  on to the second test.\<close>

definition isValidUrl :: "(string \<Rightarrow> string option) \<Rightarrow> string \<Rightarrow> bool" where
  "isValidUrl parse url =
     (if url = [] then False
      else
        (let viaScheme =
               (case parse url of
                  Some sch \<Rightarrow>
                    (let scheme = toLower sch in
                     if scheme = [] \<or> scheme \<in> set allowedSchemes
                     then Some (\<not> hasDangerousChar url) else None)
                | None \<Rightarrow> None)
         in case viaScheme of
              Some r \<Rightarrow> r
            | None \<Rightarrow> (if \<not> contains url ''://'' then \<not> hasDangerousChar url else False)))"

text \<open>The character class \<^verbatim>\<open>[a-zA-Z0-9 ._\-]\<close>.\<close>

definition profileChar :: "char \<Rightarrow> bool" where
  "profileChar c = (let n = (of_char c :: nat) in
     (97 \<le> n \<and> n \<le> 122) \<or> (65 \<le> n \<and> n \<le> 90) \<or> (48 \<le> n \<and> n \<le> 57) \<or>
     c = CHR '' '' \<or> c = CHR ''.'' \<or> c = CHR ''_'' \<or> c = CHR ''-'')"

text \<open>A match of \<^verbatim>\<open>^[a-zA-Z0-9 ._\-]+$\<close>: the dollar of the expression also matches
  before a line feed that ends the subject.\<close>

definition matchesValidProfile :: "string \<Rightarrow> bool" where
  "matchesValidProfile s =
     ((s \<noteq> [] \<and> list_all profileChar s) \<or>
      (s \<noteq> [] \<and> last s = CHR 0x0A \<and> butlast s \<noteq> [] \<and> list_all profileChar (butlast s)))"

definition isValidProfileName :: "string \<Rightarrow> bool" where
  "isValidProfileName profileName =
     (if profileName = [] then False else matchesValidProfile profileName)"

definition removeNul :: "string \<Rightarrow> string" where
  "removeNul s = filter (\<lambda>c. c \<noteq> CHR 0x00) s"

definition sanitizeUrl :: "string \<Rightarrow> string" where
  "sanitizeUrl url = trimmed (removeNul url)"

definition sanitizeProfileName :: "string \<Rightarrow> string" where
  "sanitizeProfileName profileName = filter profileChar (trimmed (removeNul profileName))"

text \<open>The messages of \<^verbatim>\<open>launchError\<close>, by the text they are built from and its
  arguments.\<close>

datatype launch_error =
    InvalidUrl string
  | InvalidProfileName string
  | BrowserNotFound string
  | ProfileNotFound string string
  | UnknownBrowserType
  | FailedToLaunch string int

text \<open>What a call of \<^verbatim>\<open>launchBrowser\<close> does: the boolean it returns, the
  \<^verbatim>\<open>launchError\<close> signals it emits, in order, and the program and arguments it handed to
  \<^verbatim>\<open>startDetached\<close>, if it came that far.\<close>

record launch_result =
  success :: bool
  errors :: "launch_error list"
  started :: "(string \<times> string list) option"

definition startProcess :: "env \<Rightarrow> string \<Rightarrow> string \<Rightarrow> string list \<Rightarrow> launch_result" where
  "startProcess e browser program args =
     (let r = startDetached e program args
      in \<lparr>success = fst r, errors = map (FailedToLaunch browser) (snd r),
          started = Some (program, args)\<rparr>)"

definition rejected :: "launch_error \<Rightarrow> launch_result" where
  "rejected err = \<lparr>success = False, errors = [err], started = None\<rparr>"

definition launchBrowser ::
  "env \<Rightarrow> BrowserDetector \<Rightarrow> string \<Rightarrow> string \<Rightarrow> string \<Rightarrow> launch_result" where
  "launchBrowser e d browser profile url =
     (let sanitizedUrl = sanitizeUrl url;
          sanitizedProfile = sanitizeProfileName profile
      in if \<not> isValidUrl (qurl e) sanitizedUrl then rejected (InvalidUrl url)
         else if \<not> isValidProfileName sanitizedProfile then rejected (InvalidProfileName profile)
         else
           (case m_cachedBrowsers d browser of
              None \<Rightarrow> rejected (BrowserNotFound browser)
            | Some browserInfo \<Rightarrow>
                (if profiles browserInfo sanitizedProfile = None
                 then rejected (ProfileNotFound sanitizedProfile browser)
                 else
                   (case btype browserInfo of
                      Firefox \<Rightarrow>
                        startProcess e browser (executable browserInfo)
                          [''-P'', sanitizedProfile, sanitizedUrl]
                    | Chrome \<Rightarrow>
                        startProcess e browser (executable browserInfo)
                          [''--profile-directory='' @ sanitizedProfile, sanitizedUrl]
                    | Chromium \<Rightarrow>
                        startProcess e browser (executable browserInfo)
                          [''--profile-directory='' @ sanitizedProfile, sanitizedUrl]
                    | Unknown \<Rightarrow> rejected UnknownBrowserType))))"

section \<open>ProfileManager (profilemanager.h, profilemanager.cpp)\<close>

record ProfileEntry =
  browser :: string
  browserDisplayName :: string
  profileId :: string
  profileDisplayName :: string
  iconPath :: string
  lastUsed :: QDateTime
  isEnabled :: bool
  isDefault :: bool
  order :: int

text \<open>The default constructor \<^verbatim>\<open>ProfileEntry()\<close>, which is also the value returned
  when there is no entry to return.\<close>

definition emptyEntry :: ProfileEntry where
  "emptyEntry =
     \<lparr>browser = [], browserDisplayName = [], profileId = [], profileDisplayName = [],
      iconPath = [], lastUsed = None, isEnabled = True, isDefault = False, order = 999\<rparr>"

text \<open>\<^verbatim>\<open>ProfileEntry::operator<\<close>.\<close>

definition entryLess :: "ProfileEntry \<Rightarrow> ProfileEntry \<Rightarrow> bool" where
  "entryLess a b =
     (if order a \<noteq> order b then order a < order b
      else if browser a \<noteq> browser b then browser a < browser b
      else profileDisplayName a < profileDisplayName b)"

text \<open>
  \<^verbatim>\<open>sortProfiles\<close> calls \<^verbatim>\<open>std::sort\<close>, which promises a permutation of the range in
  which no element is less than one before it, and leaves the order of equivalent
  elements open. \<open>sortProfilesResult ps qs\<close> says that \<open>qs\<close> is such an outcome for \<open>ps\<close>.
\<close>

definition nonDescending :: "ProfileEntry list \<Rightarrow> bool" where
  "nonDescending ps = sorted_wrt (\<lambda>a b. \<not> entryLess b a) ps"

definition sortProfilesResult :: "ProfileEntry list \<Rightarrow> ProfileEntry list \<Rightarrow> bool" where
  "sortProfilesResult ps qs = (mset qs = mset ps \<and> nonDescending qs)"

text \<open>The three fields the comparison reads.\<close>

definition sortKey :: "ProfileEntry \<Rightarrow> int \<times> string \<times> string" where
  "sortKey a = (order a, browser a, profileDisplayName a)"

definition getAllProfiles :: "ProfileEntry list \<Rightarrow> bool \<Rightarrow> ProfileEntry list" where
  "getAllProfiles m_profiles enabledOnly =
     (if enabledOnly then filter isEnabled m_profiles else m_profiles)"

definition getProfile :: "ProfileEntry list \<Rightarrow> string \<Rightarrow> string \<Rightarrow> ProfileEntry" where
  "getProfile m_profiles b p =
     (case find (\<lambda>entry. browser entry = b \<and> profileId entry = p) m_profiles of
        Some entry \<Rightarrow> entry
      | None \<Rightarrow> emptyEntry)"

definition hasProfile :: "ProfileEntry list \<Rightarrow> string \<Rightarrow> string \<Rightarrow> bool" where
  "hasProfile m_profiles b p =
     list_ex (\<lambda>entry. browser entry = b \<and> profileId entry = p) m_profiles"

definition firstEnabled :: "ProfileEntry list \<Rightarrow> ProfileEntry" where
  "firstEnabled m_profiles =
     (case getAllProfiles m_profiles True of
        entry # _ \<Rightarrow> entry
      | [] \<Rightarrow> emptyEntry)"

definition getDefaultProfile :: "KConfig \<Rightarrow> ProfileEntry list \<Rightarrow> ProfileEntry" where
  "getDefaultProfile cfg m_profiles =
     (let lu = getLastUsed cfg in
      if fst lu \<noteq> [] \<and> snd lu \<noteq> [] then
        (let entry = getProfile m_profiles (fst lu) (snd lu) in
         if browser entry \<noteq> [] \<and> isEnabled entry then entry
         else firstEnabled m_profiles)
      else firstEnabled m_profiles)"

text \<open>The signals of the profile manager that a launch can emit.\<close>

datatype pm_signal = ProfileLaunched string string | ProfileLaunchFailed launch_error

text \<open>\<^verbatim>\<open>onLaunchError\<close>, the slot connected to the detector's \<^verbatim>\<open>launchError\<close>.\<close>

definition onLaunchError :: "launch_error \<Rightarrow> pm_signal" where
  "onLaunchError err = ProfileLaunchFailed err"

text \<open>What a call of \<^verbatim>\<open>launchProfile\<close> does: the boolean it returns, the configuration
  afterwards, the signals emitted during the call, and the process start it asked
  for.\<close>

record launch_outcome =
  returned :: bool
  config :: KConfig
  signals :: "pm_signal list"
  process :: "(string \<times> string list) option"

definition launchProfile ::
  "env \<Rightarrow> BrowserDetector \<Rightarrow> KConfig \<Rightarrow> string \<Rightarrow> string \<Rightarrow> string \<Rightarrow> launch_outcome" where
  "launchProfile e d cfg b p url =
     (let r = launchBrowser e d b p url;
          relayed = map onLaunchError (errors r)
      in if success r
         then \<lparr>returned = True, config = setLastUsed cfg b p,
               signals = relayed @ [ProfileLaunched b p], process = started r\<rparr>
         else \<lparr>returned = False, config = cfg, signals = relayed, process = started r\<rparr>)"

section \<open>Concrete inputs\<close>

text \<open>A machine with nothing installed, where only \<^verbatim>\<open>https://example.com\<close> parses as a
  URL and every process start is accepted.\<close>

definition envBare :: env where
  "envBare =
     \<lparr>findInPath = (\<lambda>nm. []), fileExists = (\<lambda>f. False), isExecutable = (\<lambda>f. False),
      dirExists = (\<lambda>f. False), homePath = ''/home/u'', lastModified = (\<lambda>f. None),
      readLocalState = (\<lambda>f. CannotOpen), readIni = (\<lambda>f. []),
      readTimes = (\<lambda>f. TimesCannotOpen),
      fromSecsSinceEpoch = (\<lambda>secs. Some (secs * 1000)),
      qurl = (\<lambda>u. if u = ''https://example.com'' then Some ''https'' else None),
      startDetached = (\<lambda>program args. (True, []))\<rparr>"

text \<open>Firefox on the search path, with one profile in profiles.ini.\<close>

definition envFirefox :: env where
  "envFirefox = envBare
     \<lparr>findInPath := (\<lambda>nm. if nm = ''firefox'' then ''/usr/bin/firefox'' else []),
      fileExists := (\<lambda>f. f = ''/home/u/.mozilla/firefox/profiles.ini''),
      readIni := (\<lambda>f. if f = ''/home/u/.mozilla/firefox/profiles.ini''
                       then [\<lparr>iniGroup = ''Profile0'', iniName = ''default'',
                              iniPath = ''abc.default'', iniDefault = True\<rparr>]
                       else [])\<rparr>"

text \<open>The same machine when the process layer refuses every start and reports no
  error.\<close>

definition envRefusing :: env where
  "envRefusing = envFirefox\<lparr>startDetached := (\<lambda>program args. (False, []))\<rparr>"

text \<open>Firefox only at \<^verbatim>\<open>/opt/firefox/firefox\<close>, an executable file outside the search
  path.\<close>

definition envFirefoxOpt :: env where
  "envFirefoxOpt = envBare
     \<lparr>fileExists := (\<lambda>f. f = ''/opt/firefox/firefox''),
      isExecutable := (\<lambda>f. f = ''/opt/firefox/firefox'')\<rparr>"

text \<open>Google Chrome with a Local State that lists three profiles, two of them on disk;
  the Preferences file of \<^verbatim>\<open>Default\<close> is newer than its directory.\<close>

definition envChrome :: env where
  "envChrome = envBare
     \<lparr>findInPath := (\<lambda>nm. if nm = ''google-chrome'' then ''/usr/bin/google-chrome'' else []),
      fileExists := (\<lambda>f. f = ''/home/u/.config/google-chrome/Local State''
                         \<or> f = ''/home/u/.config/google-chrome/Default/Preferences''),
      dirExists := (\<lambda>f. f = ''/home/u/.config/google-chrome/Default''
                        \<or> f = ''/home/u/.config/google-chrome/Profile 1''),
      lastModified := (\<lambda>f. if f = ''/home/u/.config/google-chrome/Default/Preferences''
                             then Some 2000
                             else if f = ''/home/u/.config/google-chrome/Default''
                             then Some 1000
                             else if f = ''/home/u/.config/google-chrome/Profile 1''
                             then Some 500 else None),
      readLocalState := (\<lambda>f. if f = ''/home/u/.config/google-chrome/Local State''
                               then JsonObject [(''Default'', ''Person 1''),
                                 (''Profile 1'', ''Work''), (''Profile 9'', ''Gone'')]
                               else CannotOpen)\<rparr>"

text \<open>Chromium with a Local State file that is there and is not a JSON object.\<close>

definition envBrokenState :: env where
  "envBrokenState = envBare
     \<lparr>findInPath := (\<lambda>nm. if nm = ''chromium'' then ''/usr/bin/chromium'' else []),
      fileExists := (\<lambda>f. f = ''/home/u/.config/chromium/Local State''),
      readLocalState := (\<lambda>f. NotJsonObject)\<rparr>"

text \<open>A detector told, before any discovery, to use \<^verbatim>\<open>/opt/firefox/firefox\<close> and that
  Firefox is disabled.\<close>

definition detectorDisabledFirst :: BrowserDetector where
  "detectorDisabledFirst =
     setEnabledOverrides
       (setExecutableOverrides newBrowserDetector [''firefox'' \<mapsto> ''/opt/firefox/firefox''])
       [''firefox'' \<mapsto> False]"

text \<open>A detector that has discovered Firefox at time 0.\<close>

definition detectorScanned :: BrowserDetector where
  "detectorScanned = snd (detectBrowsers envFirefox 0 0 newBrowserDetector)"

text \<open>The same detector, told after that discovery that Firefox is disabled.\<close>

definition detectorDisabledLate :: BrowserDetector where
  "detectorDisabledLate = setEnabledOverrides detectorScanned [''firefox'' \<mapsto> False]"

text \<open>Registry entries: a disabled Firefox profile placed first, two Chrome profiles
  that differ in their profile id only, and a second Firefox profile.\<close>

definition entryHome :: ProfileEntry where
  "entryHome =
     \<lparr>browser = ''firefox'', browserDisplayName = ''Firefox'', profileId = ''default'',
      profileDisplayName = ''Home'', iconPath = [], lastUsed = None, isEnabled = False,
      isDefault = True, order = 1\<rparr>"

definition entryWork1 :: ProfileEntry where
  "entryWork1 =
     \<lparr>browser = ''chrome'', browserDisplayName = ''Google Chrome'', profileId = ''Profile 1'',
      profileDisplayName = ''Work'', iconPath = [], lastUsed = None, isEnabled = True,
      isDefault = False, order = 999\<rparr>"

definition entryWork2 :: ProfileEntry where
  "entryWork2 = entryWork1\<lparr>profileId := ''Profile 2''\<rparr>"

definition entryPlay :: ProfileEntry where
  "entryPlay =
     \<lparr>browser = ''firefox'', browserDisplayName = ''Firefox'', profileId = ''play'',
      profileDisplayName = ''Play'', iconPath = [], lastUsed = None, isEnabled = True,
      isDefault = False, order = 999\<rparr>"

text \<open>A fresh configuration in which the given pair was recorded as last used.\<close>

definition cfgLast :: "string \<Rightarrow> string \<Rightarrow> KConfig" where
  "cfgLast b p = setLastUsed Map.empty b p"

text \<open>A configuration in which remembering the last use is switched off.\<close>

definition cfgForgetful :: KConfig where
  "cfgForgetful = setRememberLastUsed Map.empty False"

section \<open>URL validation\<close>

text \<open>What \<open>isValidUrl\<close> computes: the scheme is looked at only for a string that
  contains \<^verbatim>\<open>://\<close>.\<close>

lemma isValidUrl_iff:
  "isValidUrl parse u \<longleftrightarrow>
     u \<noteq> [] \<and> \<not> hasDangerousChar u \<and>
     (\<not> contains u ''://'' \<or>
      (\<exists>s. parse u = Some s \<and> (toLower s = [] \<or> toLower s \<in> set allowedSchemes)))"
  by (auto simp: isValidUrl_def Let_def split: option.splits)

text \<open>
  C1. \<open>isValidUrl\<close> is meant to accept a string exactly when it is not empty, has none
  of the dangerous characters and has no scheme or an allowed one, so that a
  \<^verbatim>\<open>javascript:\<close> URL is always rejected. The code accepts \<^verbatim>\<open>javascript:alert\<close>, whatever
  \<^verbatim>\<open>QUrl\<close> makes of it: it has no dangerous character and no \<^verbatim>\<open>://\<close>, and
  \<^verbatim>\<open>javascript\<close> is not an allowed scheme.
\<close>

theorem isValidUrl_accepts_javascript:
  "isValidUrl parse ''javascript:alert'' \<and> ''javascript'' \<notin> set allowedSchemes"
  by (simp add: isValidUrl_iff hasDangerousChar_def dangerousChars_def allowedSchemes_def)

section \<open>The default profile\<close>

lemma getProfile_present:
  "hasProfile ps b p \<Longrightarrow>
   getProfile ps b p \<in> set ps \<and> browser (getProfile ps b p) = b
   \<and> profileId (getProfile ps b p) = p"
  by (induction ps) (auto simp: hasProfile_def getProfile_def)

lemma getProfile_absent: "\<not> hasProfile ps b p \<Longrightarrow> getProfile ps b p = emptyEntry"
  by (induction ps) (auto simp: hasProfile_def getProfile_def)

text \<open>
  C2. \<open>getDefaultProfile\<close> returns the entry that the configured last-used pair
  resolves to exactly when both parts of the pair are non-empty, the registry has an
  entry for the pair and that entry is enabled; in every other case it returns the
  first element of \<open>getAllProfiles\<close> with \<open>enabledOnly\<close>, and the empty entry, whose
  browser id is empty, when no entry is enabled. The entry of a pair that is present is
  an element of the registry with that browser and profile id.
\<close>

theorem getDefaultProfile_resolution:
  "getDefaultProfile cfg ps =
     (let b = fst (getLastUsed cfg); p = snd (getLastUsed cfg) in
      if b \<noteq> [] \<and> p \<noteq> [] \<and> hasProfile ps b p \<and> isEnabled (getProfile ps b p)
      then getProfile ps b p
      else (case getAllProfiles ps True of entry # _ \<Rightarrow> entry | [] \<Rightarrow> emptyEntry))
   \<and> (hasProfile ps b p \<longrightarrow>
        getProfile ps b p \<in> set ps \<and> browser (getProfile ps b p) = b
        \<and> profileId (getProfile ps b p) = p)
   \<and> browser emptyEntry = []"
proof -
  let ?b = "fst (getLastUsed cfg)" and ?p = "snd (getLastUsed cfg)"
  have "getDefaultProfile cfg ps =
     (if ?b \<noteq> [] \<and> ?p \<noteq> [] \<and> hasProfile ps ?b ?p \<and> isEnabled (getProfile ps ?b ?p)
      then getProfile ps ?b ?p
      else (case getAllProfiles ps True of entry # _ \<Rightarrow> entry | [] \<Rightarrow> emptyEntry))"
    using getProfile_present [of ps ?b ?p] getProfile_absent [of ps ?b ?p]
    by (auto simp: getDefaultProfile_def Let_def firstEnabled_def emptyEntry_def)
  then show ?thesis
    using getProfile_present [of ps b p] by (simp add: Let_def emptyEntry_def)
qed

theorem getDefaultProfile_resolution_witness:
  "hasProfile [entryHome, entryWork1, entryWork2] ''chrome'' ''Profile 2''
   \<and> getDefaultProfile (cfgLast ''chrome'' ''Profile 2'') [entryHome, entryWork1, entryWork2]
     = entryWork2
   \<and> getDefaultProfile (cfgLast ''firefox'' ''default'') [entryHome, entryWork1, entryWork2]
     = entryWork1
   \<and> getDefaultProfile (cfgLast ''firefox'' ''gone'') [entryHome, entryWork1, entryWork2]
     = entryWork1
   \<and> getDefaultProfile (cfgLast ''firefox'' ''default'') [entryHome] = emptyEntry
   \<and> getDefaultProfile Map.empty [entryHome, entryWork1] = entryWork1"
  using getDefaultProfile_resolution
      [of "cfgLast ''chrome'' ''Profile 2''" "[entryHome, entryWork1, entryWork2]"
        "''chrome''" "''Profile 2''"]
    getDefaultProfile_resolution
      [of "cfgLast ''firefox'' ''default''" "[entryHome, entryWork1, entryWork2]"
        "''chrome''" "''Profile 2''"]
    getDefaultProfile_resolution
      [of "cfgLast ''firefox'' ''gone''" "[entryHome, entryWork1, entryWork2]"
        "''chrome''" "''Profile 2''"]
    getDefaultProfile_resolution
      [of "cfgLast ''firefox'' ''default''" "[entryHome]" "''firefox''" "''default''"]
    getDefaultProfile_resolution
      [of "Map.empty" "[entryHome, entryWork1]" "''firefox''" "''default''"]
  by (simp add: cfgLast_def setLastUsed_def rememberLastUsed_def readEntryBool_def
      writeEntry_def getLastUsed_def readEntryStr_def CONFIG_GROUP_GENERAL_def
      CONFIG_GROUP_LAST_USED_def CONFIG_KEY_REMEMBER_LAST_USED_def
      hasProfile_def getProfile_def getAllProfiles_def
      entryHome_def entryWork1_def entryWork2_def emptyEntry_def)

section \<open>The order of the merged list\<close>

lemma entryLess_sortKey: "entryLess a b \<longleftrightarrow> sortKey a < sortKey b"
  by (auto simp: entryLess_def sortKey_def less_prod_def)

lemma nonDescending_sorted: "nonDescending ps \<longleftrightarrow> sorted (map sortKey ps)"
  by (simp add: nonDescending_def sorted_map entryLess_sortKey not_less)

lemma sorted_keys_unique:
  assumes "mset qs = mset ps" "nonDescending qs" "nonDescending ps"
  shows "map sortKey qs = map sortKey ps"
proof -
  have m: "mset (map sortKey qs) = mset (map sortKey ps)" using assms(1) by simp
  have sq: "sorted (map sortKey qs)" and sp: "sorted (map sortKey ps)"
    using assms by (simp_all add: nonDescending_sorted)
  have "sort (map sortKey ps) = map sortKey qs" using m sq by (rule properties_for_sort)
  moreover have "sort (map sortKey ps) = map sortKey ps"
    using sp by (simp add: sorted_sort_id)
  ultimately show ?thesis by simp
qed

lemma sorted_entries_unique:
  assumes "mset qs = mset ps" "nonDescending qs" "nonDescending ps"
    and "distinct (map sortKey ps)"
  shows "qs = ps"
proof -
  have k: "map sortKey qs = map sortKey ps" using assms(1-3) by (rule sorted_keys_unique)
  have "set qs = set ps" using assms(1) by (rule mset_eq_setD)
  moreover have "inj_on sortKey (set ps)" using assms(4) by (simp add: distinct_map)
  ultimately have "inj_on sortKey (set qs \<union> set ps)" by simp
  then show ?thesis using k by (simp add: inj_on_map_eq_map)
qed

text \<open>
  C3, as the code has it. The comparison by display order, then browser id, then
  profile display name is a strict weak order: it is irreflexive, transitive and
  asymmetric, and two entries compare as equivalent exactly when they agree on these
  three fields, whatever their other fields, the profile id among them. Sorting a list
  that is already in order keeps its sequence of keys, and keeps the list itself when
  no two of its entries have the same key.
\<close>

theorem entryLess_strict_weak_order:
  "\<not> entryLess a a
   \<and> (entryLess a b \<longrightarrow> entryLess b c \<longrightarrow> entryLess a c)
   \<and> (entryLess a b \<longrightarrow> \<not> entryLess b a)
   \<and> ((\<not> entryLess a b \<and> \<not> entryLess b a) \<longleftrightarrow> sortKey a = sortKey b)
   \<and> (nonDescending ps \<longrightarrow> sortProfilesResult ps qs \<longrightarrow>
        map sortKey qs = map sortKey ps \<and> (distinct (map sortKey ps) \<longrightarrow> qs = ps))"
proof -
  have "\<not> entryLess a a" by (simp add: entryLess_sortKey)
  moreover have "entryLess a b \<longrightarrow> entryLess b c \<longrightarrow> entryLess a c"
    by (auto simp: entryLess_sortKey)
  moreover have "entryLess a b \<longrightarrow> \<not> entryLess b a"
    by (auto simp: entryLess_sortKey)
  moreover have "(\<not> entryLess a b \<and> \<not> entryLess b a) \<longleftrightarrow> sortKey a = sortKey b"
    by (auto simp: entryLess_sortKey)
  moreover have "nonDescending ps \<longrightarrow> sortProfilesResult ps qs \<longrightarrow>
        map sortKey qs = map sortKey ps \<and> (distinct (map sortKey ps) \<longrightarrow> qs = ps)"
    using sorted_keys_unique [of qs ps] sorted_entries_unique [of qs ps]
    by (auto simp: sortProfilesResult_def)
  ultimately show ?thesis by blast
qed

theorem entryLess_strict_weak_order_witness:
  "entryLess entryHome entryWork1 \<and> entryLess entryWork1 entryPlay
   \<and> entryLess entryHome entryPlay \<and> \<not> entryLess entryWork1 entryHome
   \<and> sortKey entryHome \<noteq> sortKey entryWork1
   \<and> nonDescending [entryHome, entryWork1, entryPlay]
   \<and> sortProfilesResult [entryHome, entryWork1, entryPlay] [entryHome, entryWork1, entryPlay]
   \<and> distinct (map sortKey [entryHome, entryWork1, entryPlay])"
  using entryLess_strict_weak_order [of entryHome entryWork1 entryPlay
      "[entryHome, entryWork1, entryPlay]" "[entryHome, entryWork1, entryPlay]"]
  by (simp add: entryWork1_def entryHome_def entryPlay_def entryLess_def nonDescending_def
      sortProfilesResult_def sortKey_def)

text \<open>The claim as it was stated fails: two Chrome profiles with the same display name
  are distinct entries that compare as equivalent, and both of their orders are sorted
  outcomes of the same list.\<close>

theorem entryLess_total_counterexample:
  "entryWork1 \<noteq> entryWork2
   \<and> \<not> entryLess entryWork1 entryWork2 \<and> \<not> entryLess entryWork2 entryWork1
   \<and> nonDescending [entryWork1, entryWork2]
   \<and> sortProfilesResult [entryWork1, entryWork2] [entryWork2, entryWork1]
   \<and> [entryWork2, entryWork1] \<noteq> [entryWork1, entryWork2]"
  by (simp add: entryWork1_def entryWork2_def entryLess_def nonDescending_def
      sortProfilesResult_def)

section \<open>Chromium profiles\<close>

lemma dom_stampLastUsed: "dom (stampLastUsed e bn root profs) = dom profs"
  by (auto simp: stampLastUsed_def dom_def split: option.splits)

lemma stampLastUsed_empty: "stampLastUsed e bn root Map.empty = Map.empty"
  by (simp add: stampLastUsed_def)

lemma path_stampLastUsed:
  "stampLastUsed e bn root profs k = Some pi \<Longrightarrow>
   \<exists>pi'. profs k = Some pi' \<and> path pi = path pi'"
  by (auto simp: stampLastUsed_def split: option.splits)

lemma dom_infoCache:
  "dom (foldl (infoCacheStep e cd) m ic) =
     dom m \<union> {dir \<in> fst ` set ic. dirExists e (cd @ ''/'' @ dir)}"
  by (induction ic arbitrary: m) (auto simp: infoCacheStep_def Let_def)

lemma path_infoCacheStep:
  assumes "\<forall>k pi. m k = Some pi \<longrightarrow> path pi = k"
  shows "\<forall>k pi. infoCacheStep e cd m x k = Some pi \<longrightarrow> path pi = k"
  using assms by (auto simp: infoCacheStep_def Let_def mkProfileInfo_def)

lemma path_infoCache:
  "\<forall>k pi. m k = Some pi \<longrightarrow> path pi = k \<Longrightarrow>
   \<forall>k pi. foldl (infoCacheStep e cd) m ic k = Some pi \<longrightarrow> path pi = k"
proof (induction ic arbitrary: m)
  case Nil
  show ?case unfolding foldl_Nil by (rule Nil.prems)
next
  case (Cons x ic)
  have "\<forall>k pi. infoCacheStep e cd m x k = Some pi \<longrightarrow> path pi = k"
    using Cons.prems by (rule path_infoCacheStep)
  then show ?case unfolding foldl_Cons by (rule Cons.IH)
qed

lemma getChromeProfiles_unfold:
  "getChromeProfiles e bn =
     (if \<not> fileExists e (getChromeProfilePath e bn @ ''/'' @ CHROME_CONFIG) then Map.empty
      else stampLastUsed e bn (getChromeProfilePath e bn)
             (parseChromiumLocalState e (getChromeProfilePath e bn @ ''/'' @ CHROME_CONFIG)
                (getChromeProfilePath e bn) Map.empty))"
  by (simp add: getChromeProfiles_def Let_def)

lemma parseChromiumLocalState_unfold:
  "parseChromiumLocalState e ls cd profs =
     (case readLocalState e ls of
        CannotOpen \<Rightarrow> profs
      | NotJsonObject \<Rightarrow> profs
      | JsonObject ic \<Rightarrow>
          foldl (infoCacheStep e cd)
            (profs(''Default'' \<mapsto>
               (mkProfileInfo ''Default'' ''Default'')\<lparr>displayName := ''Default''\<rparr>))
            ic)"
  by (simp add: parseChromiumLocalState_def Let_def split: local_state_file.splits)

lemma path_parseChromiumLocalState:
  "parseChromiumLocalState e ls cd Map.empty k = Some pi \<Longrightarrow> path pi = k"
proof (cases "readLocalState e ls")
  case (JsonObject ic)
  assume h: "parseChromiumLocalState e ls cd Map.empty k = Some pi"
  have "\<forall>k' q. (Map.empty(''Default'' \<mapsto> (mkProfileInfo ''Default'' ''Default'')
          \<lparr>displayName := ''Default''\<rparr>)) k' = Some q \<longrightarrow> path q = k'"
    by (simp add: mkProfileInfo_def)
  then have "\<forall>k' q. foldl (infoCacheStep e cd)
          (Map.empty(''Default'' \<mapsto> (mkProfileInfo ''Default'' ''Default'')
          \<lparr>displayName := ''Default''\<rparr>)) ic k' = Some q \<longrightarrow> path q = k'"
    by (rule path_infoCache)
  then show ?thesis using h JsonObject by (simp add: parseChromiumLocalState_unfold)
qed (simp_all add: parseChromiumLocalState_unfold)

lemma path_getChromeProfiles: "getChromeProfiles e bn k = Some pi \<Longrightarrow> path pi = k"
proof -
  assume h: "getChromeProfiles e bn k = Some pi"
  let ?ls = "getChromeProfilePath e bn @ ''/'' @ CHROME_CONFIG"
  have ex: "fileExists e ?ls"
    using h by (simp add: getChromeProfiles_unfold split: if_splits)
  then have "stampLastUsed e bn (getChromeProfilePath e bn)
      (parseChromiumLocalState e ?ls (getChromeProfilePath e bn) Map.empty) k = Some pi"
    using h by (simp add: getChromeProfiles_unfold)
  then obtain pi' where
    "parseChromiumLocalState e ?ls (getChromeProfilePath e bn) Map.empty k = Some pi'"
    and "path pi = path pi'"
    using path_stampLastUsed by blast
  then show ?thesis using path_parseChromiumLocalState by simp
qed

lemma envChrome_simps:
  "homePath envChrome = ''/home/u''"
  "fileExists envChrome f = (f = ''/home/u/.config/google-chrome/Local State''
                         \<or> f = ''/home/u/.config/google-chrome/Default/Preferences'')"
  "dirExists envChrome f = (f = ''/home/u/.config/google-chrome/Default''
                        \<or> f = ''/home/u/.config/google-chrome/Profile 1'')"
  "readLocalState envChrome ''/home/u/.config/google-chrome/Local State'' =
     JsonObject [(''Default'', ''Person 1''), (''Profile 1'', ''Work''), (''Profile 9'', ''Gone'')]"
  by (simp_all add: envChrome_def envBare_def)

text \<open>
  C4, as the code has it. For every Chromium-family browser: when the Local State file
  is absent the enumeration is empty; it is empty too when the file cannot be opened or
  does not hold a JSON object; when the file is present and holds a JSON object, the
  keys of the result are \<^verbatim>\<open>Default\<close> and the directory names of the info_cache entries
  whose directory exists on disk. Every profile of the result has its key as its
  directory.
\<close>

theorem getChromeProfiles_keys:
  "(\<not> fileExists e (getChromeProfilePath e bn @ ''/'' @ CHROME_CONFIG) \<longrightarrow>
      getChromeProfiles e bn = Map.empty)
   \<and> (readLocalState e (getChromeProfilePath e bn @ ''/'' @ CHROME_CONFIG) = CannotOpen
        \<or> readLocalState e (getChromeProfilePath e bn @ ''/'' @ CHROME_CONFIG) = NotJsonObject
      \<longrightarrow> getChromeProfiles e bn = Map.empty)
   \<and> (fileExists e (getChromeProfilePath e bn @ ''/'' @ CHROME_CONFIG) \<longrightarrow>
      readLocalState e (getChromeProfilePath e bn @ ''/'' @ CHROME_CONFIG) = JsonObject ic \<longrightarrow>
      dom (getChromeProfiles e bn) =
        insert ''Default''
          {dir \<in> fst ` set ic. dirExists e (getChromeProfilePath e bn @ ''/'' @ dir)})
   \<and> (getChromeProfiles e bn k = Some pi \<longrightarrow> path pi = k)"
proof -
  let ?ls = "getChromeProfilePath e bn @ ''/'' @ CHROME_CONFIG"
  have absent: "\<not> fileExists e ?ls \<longrightarrow> getChromeProfiles e bn = Map.empty"
    by (simp add: getChromeProfiles_unfold)
  have unreadable:
    "readLocalState e ?ls = CannotOpen \<or> readLocalState e ?ls = NotJsonObject \<longrightarrow>
      getChromeProfiles e bn = Map.empty"
    by (auto simp: getChromeProfiles_unfold parseChromiumLocalState_unfold stampLastUsed_empty)
  have decoded: "fileExists e ?ls \<longrightarrow> readLocalState e ?ls = JsonObject ic \<longrightarrow>
      dom (getChromeProfiles e bn) =
        insert ''Default''
          {dir \<in> fst ` set ic. dirExists e (getChromeProfilePath e bn @ ''/'' @ dir)}"
    by (simp add: getChromeProfiles_unfold parseChromiumLocalState_unfold dom_stampLastUsed
        dom_infoCache)
  have keyed: "getChromeProfiles e bn k = Some pi \<longrightarrow> path pi = k"
    using path_getChromeProfiles by blast
  from absent unreadable decoded keyed show ?thesis by (intro conjI)
qed

theorem getChromeProfiles_keys_witness:
  "\<not> fileExists envBare (getChromeProfilePath envBare ''chromium'' @ ''/'' @ CHROME_CONFIG)
   \<and> getChromeProfiles envBare ''chromium'' = Map.empty
   \<and> fileExists envChrome (getChromeProfilePath envChrome ''google-chrome'' @ ''/'' @ CHROME_CONFIG)
   \<and> dom (getChromeProfiles envChrome ''google-chrome'') = {''Default'', ''Profile 1''}
   \<and> map_option path (getChromeProfiles envChrome ''google-chrome'' ''Profile 1'') =
       Some ''Profile 1''
   \<and> readLocalState envBrokenState
        (getChromeProfilePath envBrokenState ''chromium'' @ ''/'' @ CHROME_CONFIG) = NotJsonObject
   \<and> getChromeProfiles envBrokenState ''chromium'' = Map.empty"
proof -
  note absent = getChromeProfiles_keys [THEN conjunct1, rule_format]
  note unreadable = getChromeProfiles_keys [THEN conjunct2, THEN conjunct1, rule_format]
  note decoded =
    getChromeProfiles_keys [THEN conjunct2, THEN conjunct2, THEN conjunct1, rule_format]
  note keyed =
    getChromeProfiles_keys [THEN conjunct2, THEN conjunct2, THEN conjunct2, rule_format]
  have a1: "\<not> fileExists envBare (getChromeProfilePath envBare ''chromium'' @ ''/'' @ CHROME_CONFIG)"
    by (simp add: envBare_def)
  have a2: "getChromeProfiles envBare ''chromium'' = Map.empty"
    using a1 by (rule absent)
  have b1: "fileExists envChrome
      (getChromeProfilePath envChrome ''google-chrome'' @ ''/'' @ CHROME_CONFIG)"
    by (simp add: envChrome_simps getChromeProfilePath_def CHROME_CONFIG_def)
  have b2: "readLocalState envChrome
      (getChromeProfilePath envChrome ''google-chrome'' @ ''/'' @ CHROME_CONFIG) =
      JsonObject [(''Default'', ''Person 1''), (''Profile 1'', ''Work''), (''Profile 9'', ''Gone'')]"
    by (simp add: envChrome_simps getChromeProfilePath_def CHROME_CONFIG_def)
  have "dom (getChromeProfiles envChrome ''google-chrome'') =
      insert ''Default'' {dir \<in> fst ` set [(''Default'', ''Person 1''), (''Profile 1'', ''Work''),
        (''Profile 9'', ''Gone'')].
        dirExists envChrome (getChromeProfilePath envChrome ''google-chrome'' @ ''/'' @ dir)}"
    using b1 b2 by (rule decoded)
  also have "\<dots> = {''Default'', ''Profile 1''}"
    by (auto simp: envChrome_simps getChromeProfilePath_def)
  finally have b3: "dom (getChromeProfiles envChrome ''google-chrome'') = {''Default'', ''Profile 1''}" .
  then have "''Profile 1'' \<in> dom (getChromeProfiles envChrome ''google-chrome'')" by simp
  then obtain pi where pi: "getChromeProfiles envChrome ''google-chrome'' ''Profile 1'' = Some pi"
    by blast
  then have "path pi = ''Profile 1''" by (rule keyed)
  then have b4: "map_option path (getChromeProfiles envChrome ''google-chrome'' ''Profile 1'') =
       Some ''Profile 1''" using pi by simp
  have c1: "readLocalState envBrokenState
        (getChromeProfilePath envBrokenState ''chromium'' @ ''/'' @ CHROME_CONFIG) = NotJsonObject"
    by (simp add: envBrokenState_def)
  then have "readLocalState envBrokenState
        (getChromeProfilePath envBrokenState ''chromium'' @ ''/'' @ CHROME_CONFIG) = CannotOpen
      \<or> readLocalState envBrokenState
        (getChromeProfilePath envBrokenState ''chromium'' @ ''/'' @ CHROME_CONFIG) = NotJsonObject"
    by (rule disjI2)
  then have c2: "getChromeProfiles envBrokenState ''chromium'' = Map.empty"
    by (rule unreadable)
  from a1 a2 b1 b3 b4 c1 c2 show ?thesis by (intro conjI)
qed

text \<open>The claim as it was stated fails: with a Local State file that is present and is
  not a JSON object, Chromium gets no profile, not even \<^verbatim>\<open>Default\<close>.\<close>

theorem getChromeProfiles_Default_counterexample:
  "fileExists envBrokenState ''/home/u/.config/chromium/Local State''
   \<and> getChromeProfiles envBrokenState ''chromium'' ''Default'' = None"
  by (simp add: envBrokenState_def envBare_def getChromeProfiles_unfold
      getChromeProfilePath_def CHROME_CONFIG_def parseChromiumLocalState_unfold
      stampLastUsed_def)

section \<open>The last use of a Chrome profile\<close>

text \<open>Under the name that \<open>detectChrome\<close> passes, \<open>getProfileLastUsed\<close> never looks for
  the Preferences file.\<close>

lemma getProfileLastUsed_google_chrome:
  "getProfileLastUsed e ''google-chrome'' profilePath = lastModified e profilePath"
  by (simp add: getProfileLastUsed_def)

lemma getProfileLastUsed_chromium:
  "getProfileLastUsed e ''chromium'' profilePath =
     (if fileExists e (profilePath @ ''/Preferences'')
      then lastModified e (profilePath @ ''/Preferences'')
      else lastModified e profilePath)"
  by (simp add: getProfileLastUsed_def)

text \<open>
  C7. The last use of a Chromium-family profile is meant to be the modification time of
  its Preferences file when there is one. For Google Chrome the code gives the
  modification time of the directory instead: discovery on a machine where the
  Preferences file of \<^verbatim>\<open>Default\<close> exists and was modified at 2000 stamps the profile
  with 1000, the time of its directory.
\<close>

theorem chrome_lastUsed_ignores_Preferences:
  "map_option (\<lambda>info. map_option ProfileInfo.lastUsed (profiles info ''Default''))
     (fst (detectBrowsers envChrome 0 0 newBrowserDetector) ''chrome'') = Some (Some (Some 1000))
   \<and> fileExists envChrome ''/home/u/.config/google-chrome/Default/Preferences''
   \<and> lastModified envChrome ''/home/u/.config/google-chrome/Default/Preferences'' = Some 2000"
  by (simp add: detectBrowsers_def cacheIsFresh_def newBrowserDetector_def detectChromium_def
      detectChrome_def detectFirefox_def explicitlyDisabled_def qmapValue_def
      findExecutable_def CHROME_EXECUTABLE_VARIANTS_def FIREFOX_EXECUTABLE_def
      CHROMIUM_EXECUTABLE_def commonPaths_def mkBrowserInfo_def getChromeProfiles_def
      getChromeProfilePath_def CHROME_CONFIG_def parseChromiumLocalState_def
      infoCacheStep_def mkProfileInfo_def stampLastUsed_def getProfileLastUsed_def
      envChrome_def envBare_def Let_def)

section \<open>Discovery and its cache\<close>

lemma detectFirefox_disabled:
  "m_enabledOverrides d b = Some False \<Longrightarrow> detectFirefox e d m b = m b"
  by (auto simp: detectFirefox_def Let_def explicitlyDisabled_def)

lemma detectChrome_disabled:
  "m_enabledOverrides d b = Some False \<Longrightarrow> detectChrome e d m b = m b"
  by (auto simp: detectChrome_def Let_def explicitlyDisabled_def)

lemma detectChromium_disabled:
  "m_enabledOverrides d b = Some False \<Longrightarrow> detectChromium e d m b = m b"
  by (auto simp: detectChromium_def Let_def explicitlyDisabled_def)

lemma detectBrowsers_scan:
  "\<not> cacheIsFresh d now \<Longrightarrow>
   detectBrowsers e now stamp d =
     (detectChromium e d (detectChrome e d (detectFirefox e d Map.empty)),
      d\<lparr>m_cachedBrowsers := detectChromium e d (detectChrome e d (detectFirefox e d Map.empty)),
        m_lastDetection := Some stamp\<rparr>)"
  by (simp add: detectBrowsers_def Let_def)

lemma detectBrowsers_cached:
  "cacheIsFresh d now \<Longrightarrow> detectBrowsers e now stamp d = (m_cachedBrowsers d, d)"
  by (simp add: detectBrowsers_def)


lemma newBrowserDetector_not_fresh: "\<not> cacheIsFresh newBrowserDetector now"
  by (simp add: cacheIsFresh_def newBrowserDetector_def)

text \<open>The discovery of Firefox at time 0, on which the concrete detectors rest.\<close>

lemma detectorScanned_simps:
  "m_cachedBrowsers detectorScanned ''firefox'' \<noteq> None"
  "m_cachedBrowsers detectorScanned \<noteq> Map.empty"
  "m_lastDetection detectorScanned = Some 0"
  "fst (detectBrowsers envFirefox 0 0 newBrowserDetector) = m_cachedBrowsers detectorScanned"
proof -
  have fresh: "\<not> cacheIsFresh newBrowserDetector 0"
    by (rule newBrowserDetector_not_fresh)
  have ff: "detectFirefox envFirefox newBrowserDetector Map.empty ''firefox'' \<noteq> None"
    by (simp add: detectFirefox_def explicitlyDisabled_def qmapValue_def newBrowserDetector_def
        findExecutable_def FIREFOX_EXECUTABLE_def envFirefox_def envBare_def Let_def)
  have keep: "detectChromium envFirefox newBrowserDetector
      (detectChrome envFirefox newBrowserDetector m) ''firefox'' = m ''firefox''" for m
    by (simp add: detectChromium_def detectChrome_def Let_def)
  show c: "m_cachedBrowsers detectorScanned ''firefox'' \<noteq> None"
    using ff by (simp add: detectorScanned_def detectBrowsers_scan [OF fresh] keep)
  then show "m_cachedBrowsers detectorScanned \<noteq> Map.empty" by auto
  show "m_lastDetection detectorScanned = Some 0"
    by (simp add: detectorScanned_def detectBrowsers_scan [OF fresh])
  show "fst (detectBrowsers envFirefox 0 0 newBrowserDetector) = m_cachedBrowsers detectorScanned"
    by (simp add: detectorScanned_def detectBrowsers_scan [OF fresh])
qed

text \<open>
  C5, as the code has it. Whenever \<open>detectBrowsers\<close> scans, that is, whenever its cache
  is empty, unstamped or at least five seconds old, the map it returns has no entry for
  a browser id that an override marks as disabled, whatever executable override there
  is and whatever is on disk. A call that is answered from the cache returns the cached
  map as it is.
\<close>

theorem detectBrowsers_omits_disabled:
  "(\<not> cacheIsFresh d now \<longrightarrow> m_enabledOverrides d b = Some False \<longrightarrow>
      fst (detectBrowsers e now stamp d) b = None)
   \<and> (cacheIsFresh d now \<longrightarrow> fst (detectBrowsers e now stamp d) = m_cachedBrowsers d)"
  by (simp add: detectBrowsers_scan detectBrowsers_cached detectFirefox_disabled
      detectChrome_disabled detectChromium_disabled)

theorem detectBrowsers_omits_disabled_witness:
  "\<not> cacheIsFresh detectorDisabledFirst 0
   \<and> m_enabledOverrides detectorDisabledFirst ''firefox'' = Some False
   \<and> m_execOverrides detectorDisabledFirst ''firefox'' = Some ''/opt/firefox/firefox''
   \<and> fileExists envFirefoxOpt ''/opt/firefox/firefox''
   \<and> isExecutable envFirefoxOpt ''/opt/firefox/firefox''
   \<and> fst (detectBrowsers envFirefoxOpt 0 0 detectorDisabledFirst) ''firefox'' = None
   \<and> cacheIsFresh detectorScanned 4999
   \<and> fst (detectBrowsers envBare 4999 4999 detectorScanned) = m_cachedBrowsers detectorScanned"
proof -
  have a: "\<not> cacheIsFresh detectorDisabledFirst 0"
    by (simp add: cacheIsFresh_def detectorDisabledFirst_def setEnabledOverrides_def
        setExecutableOverrides_def newBrowserDetector_def)
  have b: "m_enabledOverrides detectorDisabledFirst ''firefox'' = Some False"
    by (simp add: detectorDisabledFirst_def setEnabledOverrides_def)
  have c: "m_execOverrides detectorDisabledFirst ''firefox'' = Some ''/opt/firefox/firefox''"
    by (simp add: detectorDisabledFirst_def setEnabledOverrides_def setExecutableOverrides_def)
  have d: "fileExists envFirefoxOpt ''/opt/firefox/firefox''"
    "isExecutable envFirefoxOpt ''/opt/firefox/firefox''"
    by (simp_all add: envFirefoxOpt_def)
  have f: "cacheIsFresh detectorScanned 4999"
    by (simp add: cacheIsFresh_def detectorScanned_simps secsTo_def truncDiv_def)
  from a b have "fst (detectBrowsers envFirefoxOpt 0 0 detectorDisabledFirst) ''firefox'' = None"
    by (rule detectBrowsers_omits_disabled [THEN conjunct1, rule_format])
  moreover from f
  have "fst (detectBrowsers envBare 4999 4999 detectorScanned) = m_cachedBrowsers detectorScanned"
    by (rule detectBrowsers_omits_disabled [THEN conjunct2, rule_format])
  ultimately show ?thesis using a b c d f by (intro conjI)
qed

text \<open>The claim as it was stated fails: told one second after a discovery that Firefox
  is disabled, the detector still returns Firefox, from its cache.\<close>

theorem detectBrowsers_disabled_counterexample:
  "m_enabledOverrides detectorDisabledLate ''firefox'' = Some False
   \<and> fst (detectBrowsers envFirefox 1000 1000 detectorDisabledLate) ''firefox'' \<noteq> None"
proof -
  have "cacheIsFresh detectorDisabledLate 1000"
    by (simp add: cacheIsFresh_def detectorDisabledLate_def setEnabledOverrides_def
        detectorScanned_simps secsTo_def truncDiv_def)
  then have "fst (detectBrowsers envFirefox 1000 1000 detectorDisabledLate) ''firefox'' =
      m_cachedBrowsers detectorScanned ''firefox''"
    by (simp add: detectBrowsers_cached detectorDisabledLate_def setEnabledOverrides_def)
  then show ?thesis
    by (simp add: detectorScanned_simps detectorDisabledLate_def setEnabledOverrides_def)
qed




section \<open>Launching\<close>

lemma launchBrowser_cases:
  "(started (launchBrowser e d b p url) = None \<and> \<not> success (launchBrowser e d b p url)
      \<and> (\<exists>err. errors (launchBrowser e d b p url) = [err]))
   \<or> (\<exists>prog args. started (launchBrowser e d b p url) = Some (prog, args)
      \<and> success (launchBrowser e d b p url) = fst (startDetached e prog args)
      \<and> errors (launchBrowser e d b p url) =
          map (FailedToLaunch b) (snd (startDetached e prog args)))"
  by (auto simp: launchBrowser_def Let_def rejected_def startProcess_def
      split: option.splits BrowserType.splits)

text \<open>The inputs of the concrete launches, sanitized and validated.\<close>

lemma sanitize_examples:
  "sanitizeUrl ''https://example.com'' = ''https://example.com''"
  "sanitizeUrl ''javascript:alert(1)'' = ''javascript:alert(1)''"
  "sanitizeProfileName ''default'' = ''default''"
  "sanitizeProfileName [] = []"
  "sanitizeUrl [] = []"
  by (simp_all add: sanitizeUrl_def sanitizeProfileName_def removeNul_def trimmed_def
      isSpace_def profileChar_def)

lemma validate_examples:
  "isValidUrl (qurl envFirefox) ''https://example.com''"
  "isValidUrl (qurl envRefusing) ''https://example.com''"
  "\<not> isValidUrl parse ''javascript:alert(1)''"
  "isValidProfileName ''default''"
  "\<not> isValidProfileName []"
  "\<not> isValidUrl parse []"
  by (simp_all add: isValidUrl_iff hasDangerousChar_def dangerousChars_def allowedSchemes_def
      toLower_def toLowerChar_def isValidProfileName_def matchesValidProfile_def
      profileChar_def envFirefox_def envRefusing_def envBare_def)

lemma detectorScanned_firefox:
  "\<exists>info. m_cachedBrowsers detectorScanned ''firefox'' = Some info
     \<and> executable info = ''/usr/bin/firefox'' \<and> btype info = Firefox
     \<and> profiles info ''default'' \<noteq> None"
proof -
  have prof: "getFirefoxProfiles envFirefox ''default'' \<noteq> None"
    by (simp add: getFirefoxProfiles_def getFirefoxProfilePath_def FIREFOX_CONFIG_def
        parseFirefoxIni_def parseFirefoxIniStep_def startsWith_def stampLastUsed_def
        envFirefox_def envBare_def Let_def)
  have "detectFirefox envFirefox newBrowserDetector Map.empty ''firefox'' =
      Some ((mkBrowserInfo ''Firefox'' ''/usr/bin/firefox'' Firefox)
        \<lparr>BrowserInfo.iconPath := ''/usr/share/icons/hicolor/48x48/apps/firefox.png'',
         profiles := getFirefoxProfiles envFirefox\<rparr>)"
    by (simp add: detectFirefox_def explicitlyDisabled_def qmapValue_def newBrowserDetector_def
        findExecutable_def FIREFOX_EXECUTABLE_def envFirefox_def envBare_def Let_def)
  moreover have "detectChromium envFirefox newBrowserDetector
      (detectChrome envFirefox newBrowserDetector m) ''firefox'' = m ''firefox''" for m
    by (simp add: detectChromium_def detectChrome_def Let_def)
  ultimately have "m_cachedBrowsers detectorScanned ''firefox'' =
      Some ((mkBrowserInfo ''Firefox'' ''/usr/bin/firefox'' Firefox)
        \<lparr>BrowserInfo.iconPath := ''/usr/share/icons/hicolor/48x48/apps/firefox.png'',
         profiles := getFirefoxProfiles envFirefox\<rparr>)"
    by (simp add: detectorScanned_def detectBrowsers_scan [OF newBrowserDetector_not_fresh])
  then show ?thesis using prof by (simp add: mkBrowserInfo_def)
qed

lemma launch_example:
  assumes "qurl e = qurl envFirefox"
  shows "launchBrowser e detectorScanned ''firefox'' ''default'' ''https://example.com'' =
     startProcess e ''firefox'' ''/usr/bin/firefox'' [''-P'', ''default'', ''https://example.com'']"
proof -
  obtain info where "m_cachedBrowsers detectorScanned ''firefox'' = Some info"
    "executable info = ''/usr/bin/firefox''" "btype info = Firefox"
    "profiles info ''default'' \<noteq> None"
    using detectorScanned_firefox by blast
  then show ?thesis
    using assms by (auto simp: launchBrowser_def Let_def sanitize_examples validate_examples)
qed

text \<open>What \<open>launchProfile\<close> does in every case. It returns the boolean of the launch
  executor and asks for the process start that the executor asked for. Its signals are
  the executor's errors, each relayed once and in order, followed by the launched
  signal exactly when the launch succeeds. The configuration afterwards is the
  recording of the pair when the launch succeeds and the configuration as it was when
  it fails; the recording reads back as the pair when remembering is switched on and
  changes nothing when it is switched off. An executor that rejects the request before
  any process start raises exactly one error; once a start was asked for, its errors
  are those that the process layer reported.\<close>

lemma launchProfile_outcome:
  "returned (launchProfile e d cfg b p url) = success (launchBrowser e d b p url)
   \<and> process (launchProfile e d cfg b p url) = started (launchBrowser e d b p url)
   \<and> signals (launchProfile e d cfg b p url) =
        map ProfileLaunchFailed (errors (launchBrowser e d b p url)) @
        (if success (launchBrowser e d b p url) then [ProfileLaunched b p] else [])
   \<and> config (launchProfile e d cfg b p url) =
        (if success (launchBrowser e d b p url) then setLastUsed cfg b p else cfg)
   \<and> (rememberLastUsed cfg \<longrightarrow> getLastUsed (setLastUsed cfg b p) = (b, p))
   \<and> (\<not> rememberLastUsed cfg \<longrightarrow> setLastUsed cfg b p = cfg)
   \<and> (started (launchBrowser e d b p url) = None \<longrightarrow>
        \<not> success (launchBrowser e d b p url)
        \<and> (\<exists>err. errors (launchBrowser e d b p url) = [err]))
   \<and> (started (launchBrowser e d b p url) = Some (prog, args) \<longrightarrow>
        success (launchBrowser e d b p url) = fst (startDetached e prog args)
        \<and> errors (launchBrowser e d b p url) =
            map (FailedToLaunch b) (snd (startDetached e prog args)))"
proof -
  let ?r = "launchBrowser e d b p url" and ?out = "launchProfile e d cfg b p url"
  have ret: "returned ?out = success ?r" "process ?out = started ?r"
    by (simp_all add: launchProfile_def Let_def)
  have sig: "signals ?out =
      map ProfileLaunchFailed (errors ?r) @ (if success ?r then [ProfileLaunched b p] else [])"
    by (simp add: launchProfile_def Let_def onLaunchError_def)
  have conf: "config ?out = (if success ?r then setLastUsed cfg b p else cfg)"
    by (simp add: launchProfile_def Let_def)
  have rem: "rememberLastUsed cfg \<longrightarrow> getLastUsed (setLastUsed cfg b p) = (b, p)"
    by (simp add: setLastUsed_def getLastUsed_def readEntryStr_def writeEntry_def)
  have norem: "\<not> rememberLastUsed cfg \<longrightarrow> setLastUsed cfg b p = cfg"
    by (simp add: setLastUsed_def)
  have rej: "started ?r = None \<longrightarrow> \<not> success ?r \<and> (\<exists>err. errors ?r = [err])"
    using launchBrowser_cases [of e d b p url] by auto
  have spawn: "started ?r = Some (prog, args) \<longrightarrow>
        success ?r = fst (startDetached e prog args)
        \<and> errors ?r = map (FailedToLaunch b) (snd (startDetached e prog args))"
    using launchBrowser_cases [of e d b p url] by auto
  from ret sig conf rem norem rej spawn show ?thesis by (intro conjI)
qed

text \<open>A launch that succeeds and a launch that validation rejects.\<close>

lemma launchProfile_examples:
  "launchProfile envFirefox detectorScanned Map.empty ''firefox'' ''default''
      ''https://example.com'' =
     \<lparr>returned = True, config = setLastUsed Map.empty ''firefox'' ''default'',
      signals = [ProfileLaunched ''firefox'' ''default''],
      process = Some (''/usr/bin/firefox'', [''-P'', ''default'', ''https://example.com''])\<rparr>"
  "getLastUsed (setLastUsed Map.empty ''firefox'' ''default'') = (''firefox'', ''default'')"
  "config (launchProfile envFirefox detectorScanned cfgForgetful ''firefox'' ''default''
      ''https://example.com'') = cfgForgetful"
  "launchProfile envFirefox detectorScanned Map.empty ''firefox'' ''default''
      ''javascript:alert(1)'' =
     \<lparr>returned = False, config = Map.empty,
      signals = [ProfileLaunchFailed (InvalidUrl ''javascript:alert(1)'')],
      process = None\<rparr>"
proof -
  have good: "launchBrowser envFirefox detectorScanned ''firefox'' ''default''
      ''https://example.com'' =
      \<lparr>success = True, errors = [],
       started = Some (''/usr/bin/firefox'', [''-P'', ''default'', ''https://example.com''])\<rparr>"
    by (simp add: launch_example startProcess_def envFirefox_def envBare_def)
  have bad: "launchBrowser envFirefox detectorScanned ''firefox'' ''default''
      ''javascript:alert(1)'' = rejected (InvalidUrl ''javascript:alert(1)'')"
    by (simp add: launchBrowser_def sanitize_examples validate_examples)
  have rem: "rememberLastUsed Map.empty" "\<not> rememberLastUsed cfgForgetful"
    by (simp_all add: rememberLastUsed_def readEntryBool_def cfgForgetful_def
        setRememberLastUsed_def writeEntry_def)
  show "launchProfile envFirefox detectorScanned Map.empty ''firefox'' ''default''
      ''https://example.com'' =
     \<lparr>returned = True, config = setLastUsed Map.empty ''firefox'' ''default'',
      signals = [ProfileLaunched ''firefox'' ''default''],
      process = Some (''/usr/bin/firefox'', [''-P'', ''default'', ''https://example.com''])\<rparr>"
    by (simp add: launchProfile_def good)
  show "getLastUsed (setLastUsed Map.empty ''firefox'' ''default'') = (''firefox'', ''default'')"
    using rem(1) by (simp add: setLastUsed_def getLastUsed_def readEntryStr_def writeEntry_def)
  show "config (launchProfile envFirefox detectorScanned cfgForgetful ''firefox'' ''default''
      ''https://example.com'') = cfgForgetful"
    using rem(2) by (simp add: launchProfile_def good setLastUsed_def)
  show "launchProfile envFirefox detectorScanned Map.empty ''firefox'' ''default''
      ''javascript:alert(1)'' =
     \<lparr>returned = False, config = Map.empty,
      signals = [ProfileLaunchFailed (InvalidUrl ''javascript:alert(1)'')],
      process = None\<rparr>"
    by (simp add: launchProfile_def bad rejected_def onLaunchError_def)
qed

text \<open>
  C8. \<open>launchProfile\<close> returns the boolean of the launch executor, records the pair as
  last used and emits the launched signal exactly when the launch succeeds, and on
  failure is meant to emit a launch-failed signal that carries the error, with the
  configuration unchanged. The code does all of this but the signal on one failure
  path: the refusal of the process start reaches \<^verbatim>\<open>launchError\<close> only through the
  \<^verbatim>\<open>errorOccurred\<close> signal of the process. With Firefox discovered and valid inputs, on
  a machine where \<^verbatim>\<open>startDetached\<close> returns false and the process signals no error, the
  launch returns false, the configuration is unchanged and no signal at all is emitted,
  where every other failure path of the executor emits one.
\<close>

theorem launchProfile_refused_start_is_silent:
  "launchProfile envRefusing detectorScanned Map.empty ''firefox'' ''default''
      ''https://example.com'' =
     \<lparr>returned = False, config = Map.empty, signals = [],
      process = Some (''/usr/bin/firefox'', [''-P'', ''default'', ''https://example.com''])\<rparr>"
proof -
  have "qurl envRefusing = qurl envFirefox" by (simp add: envRefusing_def)
  then have "launchBrowser envRefusing detectorScanned ''firefox'' ''default''
      ''https://example.com'' =
      \<lparr>success = False, errors = [],
       started = Some (''/usr/bin/firefox'', [''-P'', ''default'', ''https://example.com''])\<rparr>"
    by (simp add: launch_example startProcess_def envRefusing_def)
  then show ?thesis by (simp add: launchProfile_def)
qed

section \<open>The timeout is clamped on write\<close>

text \<open>
  C9. For every integer \<open>s\<close>, \<open>setDefaultTimeout s\<close> stores \<open>s\<close> clamped to the closed
  interval from 5 to 60: the next \<open>defaultTimeout\<close> read gives \<open>max 5 (min 60 s)\<close>,
  whatever the configuration held before.
\<close>

theorem setDefaultTimeout_clamped:
  "defaultTimeout (setDefaultTimeout cfg s) = max 5 (min 60 s)"
  by (simp add: defaultTimeout_def setDefaultTimeout_def readEntryInt_def writeEntry_def
      qBound_def MIN_TIMEOUT_def MAX_TIMEOUT_def)

theorem setDefaultTimeout_clamped_witness:
  "defaultTimeout (setDefaultTimeout Map.empty 100) = 60
   \<and> defaultTimeout (setDefaultTimeout Map.empty (- 3)) = 5
   \<and> defaultTimeout (setDefaultTimeout Map.empty 42) = 42"
  using setDefaultTimeout_clamped [of Map.empty 100]
    setDefaultTimeout_clamped [of Map.empty "- 3"]
    setDefaultTimeout_clamped [of Map.empty 42]
  by simp

section \<open>Launching before any discovery\<close>

text \<open>
  C10, as the code has it. \<open>launchBrowser\<close> looks the browser up in the cached discovery
  result only and never discovers. With an empty cache it returns false and starts no
  process, for every browser id, profile and URL and whatever is installed; the error
  is the browser-not-found error whenever the sanitized URL and profile name pass
  validation, and the error of the failed validation otherwise.
\<close>

theorem launchBrowser_empty_cache:
  "m_cachedBrowsers d = Map.empty \<Longrightarrow>
     \<not> success (launchBrowser e d b p url)
     \<and> started (launchBrowser e d b p url) = None
     \<and> (isValidUrl (qurl e) (sanitizeUrl url) \<longrightarrow>
          isValidProfileName (sanitizeProfileName p) \<longrightarrow>
          errors (launchBrowser e d b p url) = [BrowserNotFound b])
     \<and> (\<not> isValidUrl (qurl e) (sanitizeUrl url) \<longrightarrow>
          errors (launchBrowser e d b p url) = [InvalidUrl url])
     \<and> (isValidUrl (qurl e) (sanitizeUrl url) \<longrightarrow>
          \<not> isValidProfileName (sanitizeProfileName p) \<longrightarrow>
          errors (launchBrowser e d b p url) = [InvalidProfileName p])"
  by (simp add: launchBrowser_def Let_def rejected_def)

theorem launchBrowser_empty_cache_witness:
  "m_cachedBrowsers newBrowserDetector = Map.empty
   \<and> findExecutable envFirefox FIREFOX_EXECUTABLE = ''/usr/bin/firefox''
   \<and> isValidUrl (qurl envFirefox) (sanitizeUrl ''https://example.com'')
   \<and> isValidProfileName (sanitizeProfileName ''default'')
   \<and> \<not> success (launchBrowser envFirefox newBrowserDetector ''firefox'' ''default''
        ''https://example.com'')
   \<and> started (launchBrowser envFirefox newBrowserDetector ''firefox'' ''default''
        ''https://example.com'') = None
   \<and> errors (launchBrowser envFirefox newBrowserDetector ''firefox'' ''default''
        ''https://example.com'') = [BrowserNotFound ''firefox'']
   \<and> \<not> isValidUrl (qurl envFirefox) (sanitizeUrl ''javascript:alert(1)'')
   \<and> errors (launchBrowser envFirefox newBrowserDetector ''firefox'' ''default''
        ''javascript:alert(1)'') = [InvalidUrl ''javascript:alert(1)'']"
proof -
  have empty: "m_cachedBrowsers newBrowserDetector = Map.empty"
    by (simp add: newBrowserDetector_def)
  have installed: "findExecutable envFirefox FIREFOX_EXECUTABLE = ''/usr/bin/firefox''"
    by (simp add: findExecutable_def FIREFOX_EXECUTABLE_def envFirefox_def envBare_def)
  show ?thesis
    using launchBrowser_empty_cache [OF empty, of envFirefox "''firefox''" "''default''"
        "''https://example.com''"]
      launchBrowser_empty_cache [OF empty, of envFirefox "''firefox''" "''default''"
        "''javascript:alert(1)''"]
    by (simp add: empty installed sanitize_examples validate_examples)
qed

text \<open>The claim as it was stated fails: with an empty cache and an empty profile name
  the error is the invalid-profile-name error, and with an empty URL it is the
  invalid-URL error.\<close>

theorem launchBrowser_error_counterexample:
  "m_cachedBrowsers newBrowserDetector = Map.empty
   \<and> errors (launchBrowser envFirefox newBrowserDetector ''firefox'' []
        ''https://example.com'') = [InvalidProfileName []]
   \<and> errors (launchBrowser envFirefox newBrowserDetector ''firefox'' ''default'' [])
        = [InvalidUrl []]"
proof -
  have "launchBrowser envFirefox newBrowserDetector ''firefox'' [] ''https://example.com'' =
      rejected (InvalidProfileName [])"
    by (simp add: launchBrowser_def sanitize_examples validate_examples)
  moreover have "launchBrowser envFirefox newBrowserDetector ''firefox'' ''default'' [] =
      rejected (InvalidUrl [])"
    by (simp add: launchBrowser_def sanitize_examples validate_examples)
  ultimately show ?thesis by (simp add: rejected_def newBrowserDetector_def)
qed

end
